theory Spec2Isabelle
  imports Complex_Main
begin

section \<open>The store application: data model\<close>

text \<open>
  The program (\<^verbatim>\<open>st.py\<close>) keeps all of its state in one SQLite file with three tables.
  Every function opens a connection, runs its statements, commits and closes, so a call
  is a function from the database before to a result and the database after.

  Conventions of the model:
  \<^item> a table is the list of its rows in rowid order (the order in which
    \<^verbatim>\<open>SELECT *\<close> returns them); an \<^verbatim>\<open>INSERT\<close> appends;
  \<^item> \<^verbatim>\<open>INTEGER\<close> columns hold \<open>int\<close>, Python's integers (SQLite stores them
    exactly up to 64 bits, which is the range the model speaks of); the \<^verbatim>\<open>REAL\<close>
    columns (\<^verbatim>\<open>price\<close>, \<^verbatim>\<open>sale_price\<close>) hold values of a type parameter \<open>'r\<close>:
    the functions modelled here only store these values and read them back;
  \<^item> a \<^verbatim>\<open>str\<close> is a \<open>string\<close>, standing for its UTF-8 bytes, so that
    \<^verbatim>\<open>str.encode\<close> changes nothing;
  \<^item> a call that raises is \<open>Inl\<close> of the exception and leaves the file as it was
    (nothing was committed); a call that returns is \<open>Inr\<close> of the returned value and
    the database after; Python's \<^verbatim>\<open>None\<close> result of a function without
    \<^verbatim>\<open>return\<close> is \<open>()\<close>;
  \<^item> an id is passed to the database as a Python \<^verbatim>\<open>int\<close> or as the
    \<^verbatim>\<open>numpy.int64\<close> that indexing a row of a DataFrame gives (\<open>py_int\<close>);
    \<^verbatim>\<open>sqlite3\<close> binds the first as an integer and the second, which is no
    \<^verbatim>\<open>int\<close> but offers its eight bytes as a buffer, as a BLOB (\<open>bind_param\<close>), and
    in SQLite a BLOB never equals an integer;
  \<^item> SQLite does not enforce \<^verbatim>\<open>FOREIGN KEY\<close> clauses unless a connection turns
    them on, and no connection of the program does.
\<close>

datatype sqlite_error = IntegrityError | OperationalError

text \<open>The values \<^verbatim>\<open>login_user\<close> can return, and Python's truth value of them.\<close>

datatype py_value = PyNone | PyBool bool

fun truthy :: "py_value \<Rightarrow> bool" where
  "truthy PyNone = False"
| "truthy (PyBool b) = b"

text \<open>
  The integers the program passes as ids, and what \<^verbatim>\<open>sqlite3\<close> makes of them as
  statement parameters: the BLOB of a \<^verbatim>\<open>numpy.int64\<close> is its eight bytes, lowest
  first.
\<close>

datatype py_int = PyInt int | NumpyInt64 int

datatype sql_value = SqlInt int | SqlBlob "nat list"

definition int64_bytes :: "int \<Rightarrow> nat list" where
  "int64_bytes n =
     [nat (n mod 256), nat (n div 2 ^ 8 mod 256), nat (n div 2 ^ 16 mod 256),
      nat (n div 2 ^ 24 mod 256), nat (n div 2 ^ 32 mod 256), nat (n div 2 ^ 40 mod 256),
      nat (n div 2 ^ 48 mod 256), nat (n div 2 ^ 56 mod 256)]"

fun bind_param :: "py_int \<Rightarrow> sql_value" where
  "bind_param (PyInt n) = SqlInt n"
| "bind_param (NumpyInt64 n) = SqlBlob (int64_bytes n)"

text \<open>\<^verbatim>\<open>users (username TEXT PRIMARY KEY, password TEXT)\<close>\<close>

record user_row =
  username :: string
  password :: string

text \<open>
  \<^verbatim>\<open>inventory (id INTEGER PRIMARY KEY AUTOINCREMENT, item TEXT, category TEXT,
  quantity INTEGER, price REAL, min_stock INTEGER DEFAULT 5)\<close>
\<close>

record 'r inventory_row =
  inv_id :: int
  item :: string
  category :: string
  quantity :: int
  price :: 'r
  min_stock :: int

text \<open>
  \<^verbatim>\<open>sales (id INTEGER PRIMARY KEY AUTOINCREMENT, item_id INTEGER, quantity INTEGER,
  sale_price REAL, sale_date TEXT, FOREIGN KEY(item_id) REFERENCES inventory(id))\<close>;
  the integer affinity of \<^verbatim>\<open>item_id\<close> leaves a BLOB a BLOB.
\<close>

record 'r sales_row =
  sale_id :: int
  item_id :: sql_value
  sale_quantity :: int
  sale_price :: 'r
  sale_date :: string

text \<open>
  The database file. \<open>inventory_seq\<close> and \<open>sales_seq\<close> are the two rows of
  \<^verbatim>\<open>sqlite_sequence\<close>, which \<^verbatim>\<open>AUTOINCREMENT\<close> maintains: the largest rowid each
  table has ever held.
\<close>

record 'r db =
  users :: "user_row list"
  inventory :: "'r inventory_row list"
  sales :: "'r sales_row list"
  inventory_seq :: int
  sales_seq :: int

text \<open>The file right after the three \<^verbatim>\<open>CREATE TABLE IF NOT EXISTS\<close> on a new file.\<close>

definition empty_db :: "'r db" where
  "empty_db = \<lparr>users = [], inventory = [], sales = [], inventory_seq = 0, sales_seq = 0\<rparr>"

text \<open>
  The rowid \<^verbatim>\<open>AUTOINCREMENT\<close> gives a new row: one more than the largest rowid the
  table holds or has ever held.
\<close>

definition next_rowid :: "int \<Rightarrow> int list \<Rightarrow> int" where
  "next_rowid seq ids = fold max ids seq + 1"

section \<open>The clock\<close>

text \<open>
  \<^verbatim>\<open>datetime.now()\<close> is an input of the model, and
  \<^verbatim>\<open>strftime("%Y-%m-%d %H:%M:%S")\<close> is written out (for the four-digit years a
  running clock shows).
\<close>

record datetime =
  year :: nat
  month :: nat
  day :: nat
  hour :: nat
  minute :: nat
  second :: nat
  microsecond :: nat

definition digit :: "nat \<Rightarrow> char" where
  "digit n = ''0123456789'' ! (n mod 10)"

definition pad2 :: "nat \<Rightarrow> string" where
  "pad2 n = [digit (n div 10), digit n]"

definition pad4 :: "nat \<Rightarrow> string" where
  "pad4 n = [digit (n div 1000), digit (n div 100), digit (n div 10), digit n]"

definition strftime :: "datetime \<Rightarrow> string" where
  "strftime t =
     pad4 (year t) @ ''-'' @ pad2 (month t) @ ''-'' @ pad2 (day t) @ '' '' @
     pad2 (hour t) @ '':'' @ pad2 (minute t) @ '':'' @ pad2 (second t)"

section \<open>Authentication\<close>

text \<open>
  \<^verbatim>\<open>hashlib.sha256(b).hexdigest()\<close> is a library call: it is the parameter \<open>sha256\<close> of
  every function that hashes, from the bytes to the hexadecimal digest. What is proved
  holds for every such function.
\<close>

definition str_encode :: "string \<Rightarrow> string" where
  "str_encode s = s"

definition make_hashes :: "(string \<Rightarrow> string) \<Rightarrow> string \<Rightarrow> string" where
  "make_hashes sha256 pw = sha256 (str_encode pw)"

definition check_hashes :: "(string \<Rightarrow> string) \<Rightarrow> string \<Rightarrow> string \<Rightarrow> bool" where
  "check_hashes sha256 pw hashed_text = (make_hashes sha256 pw = hashed_text)"

text \<open>
  \<^verbatim>\<open>INSERT INTO users VALUES (?,?)\<close>: the primary key refuses a username that is
  already there.
\<close>

definition sql_insert_user :: "'r db \<Rightarrow> string \<Rightarrow> string \<Rightarrow> sqlite_error + 'r db" where
  "sql_insert_user d u h =
     (if u \<in> set (map username (users d)) then Inl IntegrityError
      else Inr (d\<lparr>users := users d @ [\<lparr>username = u, password = h\<rparr>]\<rparr>))"

text \<open>
  \<^verbatim>\<open>init_db\<close>: the tables exist in every \<open>db\<close>, so what is left is
  \<^verbatim>\<open>INSERT OR IGNORE INTO users VALUES ('admin', make_hashes('admin123'))\<close> inside
  \<^verbatim>\<open>try: ... except: pass\<close>.
\<close>

definition init_db :: "(string \<Rightarrow> string) \<Rightarrow> 'r db \<Rightarrow> 'r db" where
  "init_db sha256 d =
     (case sql_insert_user d ''admin'' (make_hashes sha256 ''admin123'') of
        Inr d' \<Rightarrow> d'
      | Inl _ \<Rightarrow> d)"

text \<open>
  \<^verbatim>\<open>create_user\<close>: \<^verbatim>\<open>True\<close> after the insert and the commit, \<^verbatim>\<open>False\<close> on
  \<^verbatim>\<open>sqlite3.IntegrityError\<close>; any other exception is not caught.
\<close>

definition create_user ::
  "(string \<Rightarrow> string) \<Rightarrow> 'r db \<Rightarrow> string \<Rightarrow> string \<Rightarrow> sqlite_error + bool \<times> 'r db" where
  "create_user sha256 d u p =
     (case sql_insert_user d u (make_hashes sha256 p) of
        Inr d' \<Rightarrow> Inr (True, d')
      | Inl IntegrityError \<Rightarrow> Inr (False, d)
      | Inl e \<Rightarrow> Inl e)"

text \<open>\<^verbatim>\<open>SELECT * FROM users WHERE username = ?\<close> and \<^verbatim>\<open>fetchone()\<close>.\<close>

definition sql_select_user :: "'r db \<Rightarrow> string \<Rightarrow> user_row option" where
  "sql_select_user d u = find (\<lambda>r. username r = u) (users d)"

text \<open>
  \<^verbatim>\<open>return data and check_hashes(password, data[1])\<close>: Python's \<^verbatim>\<open>and\<close> returns its
  left operand when that is falsy, so a missing row gives \<^verbatim>\<open>None\<close>; a fetched row is
  a non-empty tuple, which is truthy.
\<close>

definition login_user :: "(string \<Rightarrow> string) \<Rightarrow> 'r db \<Rightarrow> string \<Rightarrow> string \<Rightarrow> py_value" where
  "login_user sha256 d u p =
     (case sql_select_user d u of
        None \<Rightarrow> PyNone
      | Some data \<Rightarrow> PyBool (check_hashes sha256 p (password data)))"

section \<open>Inventory\<close>

definition get_inventory :: "'r db \<Rightarrow> 'r inventory_row list" where
  "get_inventory d = inventory d"

text \<open>
  \<^verbatim>\<open>add_item\<close>; a caller that leaves \<^verbatim>\<open>min_stock\<close> out passes 5.
\<close>

definition add_item ::
  "'r db \<Rightarrow> string \<Rightarrow> string \<Rightarrow> int \<Rightarrow> 'r \<Rightarrow> int \<Rightarrow> sqlite_error + unit \<times> 'r db" where
  "add_item d it c q p m =
     (let new_id = next_rowid (inventory_seq d) (map inv_id (inventory d))
      in Inr ((), d\<lparr>inventory := inventory d @
                      [\<lparr>inv_id = new_id, item = it, category = c, quantity = q,
                        price = p, min_stock = m\<rparr>],
                    inventory_seq := new_id\<rparr>))"

text \<open>
  \<^verbatim>\<open>UPDATE inventory SET item=?, category=?, quantity=?, price=?, min_stock=? WHERE id=?\<close>
\<close>

definition update_item ::
  "'r db \<Rightarrow> py_int \<Rightarrow> string \<Rightarrow> string \<Rightarrow> int \<Rightarrow> 'r \<Rightarrow> int \<Rightarrow> sqlite_error + unit \<times> 'r db" where
  "update_item d a it c q p m =
     Inr ((), d\<lparr>inventory :=
                  map (\<lambda>r. if SqlInt (inv_id r) = bind_param a
                           then r\<lparr>item := it, category := c, quantity := q,
                                  price := p, min_stock := m\<rparr>
                           else r)
                      (inventory d)\<rparr>)"

text \<open>\<^verbatim>\<open>DELETE FROM inventory WHERE id=?\<close>\<close>

definition delete_item :: "'r db \<Rightarrow> py_int \<Rightarrow> sqlite_error + unit \<times> 'r db" where
  "delete_item d a =
     Inr ((), d\<lparr>inventory := filter (\<lambda>r. SqlInt (inv_id r) \<noteq> bind_param a) (inventory d)\<rparr>)"

text \<open>
  The id the forms of \<^verbatim>\<open>main_app\<close> pass to \<^verbatim>\<open>update_item\<close>, \<^verbatim>\<open>delete_item\<close> and
  \<^verbatim>\<open>record_sale\<close>: \<^verbatim>\<open>inventory[inventory['item'] == name].iloc[0]['id']\<close>, the id of
  the first row with the chosen name, as a \<^verbatim>\<open>numpy.int64\<close>. \<open>None\<close> is the
  \<^verbatim>\<open>IndexError\<close> of \<^verbatim>\<open>iloc[0]\<close> on no row.
\<close>

definition iloc0_id :: "'r inventory_row list \<Rightarrow> string \<Rightarrow> py_int option" where
  "iloc0_id items name =
     (case filter (\<lambda>r. item r = name) items of
        [] \<Rightarrow> None
      | r # _ \<Rightarrow> Some (NumpyInt64 (inv_id r)))"

text \<open>
  The low-stock view of \<^verbatim>\<open>main_app\<close>:
  \<^verbatim>\<open>inventory[inventory['quantity'] < inventory['min_stock']]\<close>, and the table shown
  under the warning, \<^verbatim>\<open>low_stock[['item', 'quantity', 'min_stock']]\<close>, which appears
  only when the inventory and the view are both non-empty.
\<close>

definition low_stock :: "'r inventory_row list \<Rightarrow> 'r inventory_row list" where
  "low_stock items = filter (\<lambda>r. quantity r < min_stock r) items"

definition low_stock_alert :: "'r inventory_row list \<Rightarrow> (string \<times> int \<times> int) list option" where
  "low_stock_alert items =
     (if items \<noteq> [] \<and> low_stock items \<noteq> []
      then Some (map (\<lambda>r. (item r, quantity r, min_stock r)) (low_stock items))
      else None)"

section \<open>Sales\<close>

text \<open>
  \<^verbatim>\<open>record_sale\<close>: \<^verbatim>\<open>UPDATE inventory SET quantity = quantity - ? WHERE id = ?\<close>, then
  the timestamp, then \<^verbatim>\<open>INSERT INTO sales (item_id, quantity, sale_price, sale_date)\<close>.
\<close>

definition record_sale ::
  "'r db \<Rightarrow> datetime \<Rightarrow> py_int \<Rightarrow> int \<Rightarrow> 'r \<Rightarrow> sqlite_error + unit \<times> 'r db" where
  "record_sale d now a q p =
     (let rows = map (\<lambda>r. if SqlInt (inv_id r) = bind_param a
                              then r\<lparr>quantity := quantity r - q\<rparr> else r)
                      (inventory d);
          date = strftime now;
          new_id = next_rowid (sales_seq d) (map sale_id (sales d))
      in Inr ((), d\<lparr>inventory := rows,
                    sales := sales d @
                      [\<lparr>sale_id = new_id, item_id = bind_param a, sale_quantity = q,
                        sale_price = p, sale_date = date\<rparr>],
                    sales_seq := new_id\<rparr>))"

text \<open>
  \<^verbatim>\<open>SELECT s.id, i.item, s.quantity, s.sale_price, s.sale_date
  FROM sales s JOIN inventory i ON s.item_id = i.id\<close>
\<close>

definition get_sales :: "'r db \<Rightarrow> (int \<times> string \<times> int \<times> 'r \<times> string) list" where
  "get_sales d =
     [(sale_id s, item i, sale_quantity s, sale_price s, sale_date s).
        s \<leftarrow> sales d, i \<leftarrow> inventory d, item_id s = SqlInt (inv_id i)]"

text \<open>
  The sales listing as the specification words it: one row for each sale whose item
  exists, with that item's name; a sale whose item is gone gives no row.
\<close>

definition list_sales_spec :: "'r db \<Rightarrow> (int \<times> string \<times> int \<times> 'r \<times> string) list" where
  "list_sales_spec d =
     List.map_filter
       (\<lambda>s. case find (\<lambda>i. SqlInt (inv_id i) = item_id s) (inventory d) of
               None \<Rightarrow> None
             | Some i \<Rightarrow> Some (sale_id s, item i, sale_quantity s, sale_price s, sale_date s))
       (sales d)"

text \<open>The primary keys: what the three \<^verbatim>\<open>PRIMARY KEY\<close> columns guarantee of a file.\<close>

definition primary_keys :: "'r db \<Rightarrow> bool" where
  "primary_keys d \<longleftrightarrow>
     distinct (map username (users d)) \<and>
     distinct (map inv_id (inventory d)) \<and>
     distinct (map sale_id (sales d))"

text \<open>The rows one sale contributes to the join.\<close>

definition sale_rows :: "'r inventory_row list \<Rightarrow> 'r sales_row \<Rightarrow> (int \<times> string \<times> int \<times> 'r \<times> string) list" where
  "sale_rows items s =
     [(sale_id s, item i, sale_quantity s, sale_price s, sale_date s).
        i \<leftarrow> items, item_id s = SqlInt (inv_id i)]"

section \<open>A worked example\<close>

text \<open>
  A small shop for the examples that follow each theorem: two items, no sales yet, and
  the seeded \<^verbatim>\<open>admin\<close> account. \<open>demo_digest\<close> stands in for the digest in the
  examples only; \<open>ledger\<close> is the shop after a sale of each item and the deletion of
  the second item; \<open>noon\<close> is a reading of the clock.
\<close>

definition demo_digest :: "string \<Rightarrow> string" where
  "demo_digest b = rev b"

definition rice :: "real inventory_row" where
  "rice = \<lparr>inv_id = 1, item = ''Rice'', category = ''groceries'', quantity = 10,
           price = 500, min_stock = 5\<rparr>"

definition beans :: "real inventory_row" where
  "beans = \<lparr>inv_id = 2, item = ''Beans'', category = ''groceries'', quantity = 5,
            price = 300, min_stock = 5\<rparr>"

definition shop :: "real db" where
  "shop = \<lparr>users = [\<lparr>username = ''admin'', password = ''321nimda''\<rparr>],
           inventory = [rice, beans], sales = [], inventory_seq = 2, sales_seq = 0\<rparr>"

definition ledger :: "real db" where
  "ledger = \<lparr>users = [\<lparr>username = ''admin'', password = ''321nimda''\<rparr>],
             inventory = [rice\<lparr>quantity := 7\<rparr>],
             sales = [\<lparr>sale_id = 1, item_id = SqlInt 1, sale_quantity = 3, sale_price = 480,
                       sale_date = ''2024-03-09 12:00:07''\<rparr>,
                      \<lparr>sale_id = 2, item_id = SqlInt 2, sale_quantity = 1, sale_price = 300,
                       sale_date = ''2024-03-09 12:00:07''\<rparr>],
             inventory_seq = 2, sales_seq = 2\<rparr>"

definition noon :: datetime where
  "noon = \<lparr>year = 2024, month = 3, day = 9, hour = 12, minute = 0, second = 7,
           microsecond = 123456\<rparr>"

section \<open>Rowids and the clock\<close>

lemma fold_max_ge_init: "(seq::int) \<le> fold max ids seq"
  by (induction ids arbitrary: seq) (auto intro: order_trans [OF max.cobounded2])

lemma fold_max_ge_elem: "x \<in> set ids \<Longrightarrow> (x::int) \<le> fold max ids seq"
proof (induction ids arbitrary: seq)
  case Nil
  then show ?case by simp
next
  case (Cons a ids)
  show ?case
  proof (cases "x = a")
    case True
    have "a \<le> max a seq" by simp
    also have "\<dots> \<le> fold max ids (max a seq)" by (rule fold_max_ge_init)
    finally show ?thesis using True by simp
  next
    case False
    with Cons show ?thesis by simp
  qed
qed

lemma next_rowid_fresh: "next_rowid seq ids \<notin> set ids"
proof
  assume "next_rowid seq ids \<in> set ids"
  then have "next_rowid seq ids \<le> fold max ids seq" by (rule fold_max_ge_elem)
  then show False by (simp add: next_rowid_def)
qed

lemma next_rowid_gt_seq: "seq < next_rowid seq ids"
  using fold_max_ge_init [of seq ids] by (simp add: next_rowid_def)

lemma strftime_noon: "strftime noon = ''2024-03-09 12:00:07''"
  by (simp add: strftime_def noon_def pad2_def pad4_def digit_def)

lemma strftime_microsecond: "strftime (t\<lparr>microsecond := m\<rparr>) = strftime t"
  by (simp add: strftime_def)

lemma length_strftime: "length (strftime t) = 19"
  by (simp add: strftime_def pad2_def pad4_def)

section \<open>Lists of rows\<close>

lemma find_app:
  "find P (xs @ ys) = (case find P xs of None \<Rightarrow> find P ys | Some x \<Rightarrow> Some x)"
  by (induction xs) simp_all

lemma select_user_row:
  assumes "distinct (map username us)" and "row \<in> set us"
  shows "find (\<lambda>r. username r = username row) us = Some row"
  using assms
proof (induction us)
  case Nil
  then show ?case by simp
next
  case (Cons a us)
  show ?case
  proof (cases "a = row")
    case True
    then show ?thesis by simp
  next
    case False
    with Cons.prems have "row \<in> set us" "username a \<noteq> username row" by force+
    with Cons show ?thesis by simp
  qed
qed

lemma upd_rows_find:
  assumes "distinct (map inv_id items)" and "r \<in> set items" and "inv_id (f r) = inv_id r"
  shows "find (\<lambda>x. inv_id x = inv_id r) (map (\<lambda>x. if inv_id x = inv_id r then f x else x) items)
         = Some (f r)"
  using assms(1,2)
proof (induction items)
  case Nil
  then show ?case by simp
next
  case (Cons a items)
  show ?case
  proof (cases "a = r")
    case True
    with assms(3) show ?thesis by simp
  next
    case False
    with Cons.prems have "r \<in> set items" "inv_id a \<noteq> inv_id r" by force+
    with Cons show ?thesis by simp
  qed
qed

lemma upd_rows_ids:
  "(\<And>x. inv_id (f x) = inv_id x) \<Longrightarrow>
   map inv_id (map (\<lambda>x. if P x then f x else x) items) = map inv_id items"
  by (induction items) simp_all

lemma upd_rows_absent:
  "\<forall>x \<in> set items. \<not> P x \<Longrightarrow> map (\<lambda>x. if P x then f x else x) items = items"
  by (induction items) auto

lemma no_row_matches:
  "v \<notin> set (map (\<lambda>r. SqlInt (inv_id r)) items) \<Longrightarrow> \<forall>x \<in> set items. SqlInt (inv_id x) \<noteq> v"
  by (induction items) auto

lemma bind_param_int: "SqlInt i = bind_param a \<longleftrightarrow> a = PyInt i"
  by (cases a) auto

lemma bind_param_numpy: "SqlInt i \<noteq> bind_param (NumpyInt64 n)"
  by simp

lemma int64_bytes_one: "int64_bytes 1 = [1, 0, 0, 0, 0, 0, 0, 0]"
  by (simp add: int64_bytes_def)

section \<open>The join\<close>

lemma get_sales_sale_rows: "get_sales d = concat (map (\<lambda>s. sale_rows (inventory d) s) (sales d))"
  by (simp add: get_sales_def sale_rows_def)

lemma sale_rows_Nil: "sale_rows [] s = []"
  by (simp add: sale_rows_def)

lemma sale_rows_Cons:
  "sale_rows (i # items) s =
     (if item_id s = SqlInt (inv_id i)
      then (sale_id s, item i, sale_quantity s, sale_price s, sale_date s) # sale_rows items s
      else sale_rows items s)"
  by (simp add: sale_rows_def)

lemma sale_rows_no_item: "item_id s \<notin> set (map (\<lambda>i. SqlInt (inv_id i)) items) \<Longrightarrow> sale_rows items s = []"
  by (induction items) (auto simp: sale_rows_Nil sale_rows_Cons)

lemma sale_rows_one_item:
  "distinct (map inv_id items) \<Longrightarrow> r \<in> set items \<Longrightarrow> item_id s = SqlInt (inv_id r) \<Longrightarrow>
   sale_rows items s = [(sale_id s, item r, sale_quantity s, sale_price s, sale_date s)]"
proof (induction items)
  case Nil
  then show ?case by simp
next
  case (Cons a items)
  show ?case
  proof (cases "a = r")
    case True
    with Cons.prems have "item_id s \<notin> set (map (\<lambda>i. SqlInt (inv_id i)) items)" by auto
    then have "sale_rows items s = []" by (rule sale_rows_no_item)
    with True Cons.prems show ?thesis by (simp add: sale_rows_Cons)
  next
    case False
    with Cons.prems have r: "r \<in> set items" and d: "distinct (map inv_id items)" by auto
    from r Cons.prems have "inv_id a \<noteq> inv_id r" by force
    with Cons.IH [OF d r Cons.prems(3)] Cons.prems(3) show ?thesis
      by (simp add: sale_rows_Cons)
  qed
qed

lemma sale_rows_find:
  "distinct (map inv_id items) \<Longrightarrow>
   sale_rows items s =
     (case find (\<lambda>i. SqlInt (inv_id i) = item_id s) items of
        None \<Rightarrow> []
      | Some i \<Rightarrow> [(sale_id s, item i, sale_quantity s, sale_price s, sale_date s)])"
proof (cases "find (\<lambda>i. SqlInt (inv_id i) = item_id s) items")
  case None
  then have "item_id s \<notin> set (map (\<lambda>i. SqlInt (inv_id i)) items)" by (auto simp: find_None_iff)
  with None show ?thesis by (simp add: sale_rows_no_item)
next
  case (Some i)
  assume d: "distinct (map inv_id items)"
  from Some have "i \<in> set items" "item_id s = SqlInt (inv_id i)"
    by (auto simp: find_Some_iff)
  with d Some show ?thesis by (simp add: sale_rows_one_item)
qed

lemma sale_rows_map:
  "(\<And>r. inv_id (g r) = inv_id r \<and> item (g r) = item r) \<Longrightarrow>
   sale_rows (map g items) s = sale_rows items s"
  by (induction items) (simp_all add: sale_rows_Nil sale_rows_Cons)

lemma join_map_filter:
  "distinct (map inv_id items) \<Longrightarrow>
   concat (map (\<lambda>s. sale_rows items s) ss) =
   List.map_filter
     (\<lambda>s. case find (\<lambda>i. SqlInt (inv_id i) = item_id s) items of
             None \<Rightarrow> None
           | Some i \<Rightarrow> Some (sale_id s, item i, sale_quantity s, sale_price s, sale_date s))
     ss"
proof (induction ss)
  case Nil
  then show ?case by (simp add: map_filter_simps)
next
  case (Cons s ss)
  then show ?case
    by (simp add: map_filter_simps sale_rows_find split: option.split)
qed

lemma join_sale_ids:
  "distinct (map inv_id items) \<Longrightarrow>
   map fst (concat (map (\<lambda>s. sale_rows items s) ss)) =
   map sale_id (filter (\<lambda>s. item_id s \<in> set (map (\<lambda>i. SqlInt (inv_id i)) items)) ss)"
proof (induction ss)
  case Nil
  then show ?case by simp
next
  case (Cons s ss)
  show ?case
  proof (cases "item_id s \<in> set (map (\<lambda>i. SqlInt (inv_id i)) items)")
    case True
    then obtain r where "r \<in> set items" "item_id s = SqlInt (inv_id r)" by auto
    with Cons.prems have "sale_rows items s =
        [(sale_id s, item r, sale_quantity s, sale_price s, sale_date s)]"
      by (simp add: sale_rows_one_item)
    with True Cons show ?thesis by simp
  next
    case False
    then have "sale_rows items s = []" by (rule sale_rows_no_item)
    with False Cons show ?thesis by simp
  qed
qed

section \<open>The primary keys are kept\<close>

text \<open>
  Every function of the program takes a database whose primary keys hold to one whose
  primary keys hold, and the new database has them; so the theorems below that assume
  them speak of every database the functions can produce.
\<close>

lemma record_sale_eq:
  "record_sale d now a q p =
     Inr ((), d\<lparr>inventory := map (\<lambda>r. if SqlInt (inv_id r) = bind_param a
                                        then r\<lparr>quantity := quantity r - q\<rparr> else r)
                                  (inventory d),
               sales := sales d @
                 [\<lparr>sale_id = next_rowid (sales_seq d) (map sale_id (sales d)),
                   item_id = bind_param a,
                   sale_quantity = q, sale_price = p, sale_date = strftime now\<rparr>],
               sales_seq := next_rowid (sales_seq d) (map sale_id (sales d))\<rparr>)"
  by (simp add: record_sale_def Let_def)

lemma primary_keys_empty: "primary_keys empty_db"
  by (simp add: primary_keys_def empty_db_def)

lemma primary_keys_insert_user:
  "primary_keys d \<Longrightarrow> sql_insert_user d u h = Inr d' \<Longrightarrow> primary_keys d'"
  by (auto simp: primary_keys_def sql_insert_user_def split: if_splits)

lemma primary_keys_init_db: "primary_keys d \<Longrightarrow> primary_keys (init_db H d)"
  by (auto simp: init_db_def split: sum.splits dest: primary_keys_insert_user)

lemma primary_keys_create_user:
  "primary_keys d \<Longrightarrow> create_user H d u p = Inr (b, d') \<Longrightarrow> primary_keys d'"
  by (auto simp: create_user_def split: sum.splits sqlite_error.splits
      dest: primary_keys_insert_user)

lemma primary_keys_add_item:
  "primary_keys d \<Longrightarrow> add_item d it c q p m = Inr ((), d') \<Longrightarrow> primary_keys d'"
  using next_rowid_fresh [of "inventory_seq d" "map inv_id (inventory d)"]
  by (auto simp: primary_keys_def add_item_def Let_def)

lemma primary_keys_update_item:
  assumes "primary_keys d" and "update_item d a it c q p m = Inr ((), d')"
  shows "primary_keys d'"
proof -
  let ?g = "\<lambda>r::'a inventory_row. if SqlInt (inv_id r) = bind_param a
      then r\<lparr>item := it, category := c, quantity := q, price := p, min_stock := m\<rparr> else r"
  from assms(2) have d': "d' = d\<lparr>inventory := map ?g (inventory d)\<rparr>"
    by (simp add: update_item_def)
  have "map inv_id (map ?g (inventory d)) = map inv_id (inventory d)"
    by (rule upd_rows_ids) simp
  with assms(1) show ?thesis
    unfolding d' primary_keys_def by (simp del: map_map)
qed

lemma primary_keys_delete_item:
  "primary_keys d \<Longrightarrow> delete_item d a = Inr ((), d') \<Longrightarrow> primary_keys d'"
  by (auto simp: primary_keys_def delete_item_def distinct_map_filter)

lemma primary_keys_record_sale:
  assumes "primary_keys d" and "record_sale d now a q p = Inr ((), d')"
  shows "primary_keys d'"
proof -
  let ?g = "\<lambda>r::'a inventory_row. if SqlInt (inv_id r) = bind_param a
      then r\<lparr>quantity := quantity r - q\<rparr> else r"
  let ?n = "next_rowid (sales_seq d) (map sale_id (sales d))"
  from assms(2) have d': "d' = d\<lparr>inventory := map ?g (inventory d),
      sales := sales d @ [\<lparr>sale_id = ?n, item_id = bind_param a, sale_quantity = q, sale_price = p,
                            sale_date = strftime now\<rparr>],
      sales_seq := ?n\<rparr>"
    by (simp add: record_sale_eq)
  have ids: "map inv_id (map ?g (inventory d)) = map inv_id (inventory d)"
    by (rule upd_rows_ids) simp
  have fresh: "?n \<notin> set (map sale_id (sales d))" by (rule next_rowid_fresh)
  from assms(1) ids fresh show ?thesis
    unfolding d' primary_keys_def by (simp del: map_map)
qed

text \<open>
  The example databases are ones the functions produce: the shop by two calls of
  \<^verbatim>\<open>add_item\<close> after \<^verbatim>\<open>init_db\<close>, the ledger by sales and a deletion with the ids
  given as Python integers.
\<close>

lemma shop_reachable:
  assumes "add_item (init_db demo_digest empty_db) ''Rice'' ''groceries'' 10 500 5 = Inr ((), d1)"
    and "add_item d1 ''Beans'' ''groceries'' 5 300 5 = Inr ((), d2)"
  shows "d2 = shop"
proof -
  have "init_db demo_digest (empty_db :: real db) =
      \<lparr>users = [\<lparr>username = ''admin'', password = ''321nimda''\<rparr>], inventory = [],
       sales = [], inventory_seq = 0, sales_seq = 0\<rparr>"
    by (simp add: init_db_def sql_insert_user_def make_hashes_def str_encode_def
        demo_digest_def empty_db_def)
  with assms(1) have "d1 = \<lparr>users = [\<lparr>username = ''admin'', password = ''321nimda''\<rparr>],
      inventory = [rice], sales = [], inventory_seq = 1, sales_seq = 0\<rparr>"
    by (simp add: add_item_def next_rowid_def rice_def Let_def)
  with assms(2) show ?thesis
    by (simp add: add_item_def next_rowid_def rice_def beans_def shop_def Let_def)
qed

lemma ledger_reachable:
  assumes "record_sale shop noon (PyInt 1) 3 480 = Inr ((), d1)"
    and "record_sale d1 noon (PyInt 2) 1 300 = Inr ((), d2)"
    and "delete_item d2 (PyInt 2) = Inr ((), d3)"
  shows "d3 = ledger"
proof -
  from assms(1) have "d1 = \<lparr>users = [\<lparr>username = ''admin'', password = ''321nimda''\<rparr>],
      inventory = [rice\<lparr>quantity := 7\<rparr>, beans],
      sales = [\<lparr>sale_id = 1, item_id = SqlInt 1, sale_quantity = 3, sale_price = 480,
                sale_date = ''2024-03-09 12:00:07''\<rparr>],
      inventory_seq = 2, sales_seq = 1\<rparr>"
    by (simp add: record_sale_eq shop_def rice_def beans_def next_rowid_def strftime_noon)
  with assms(2) have "d2 = \<lparr>users = [\<lparr>username = ''admin'', password = ''321nimda''\<rparr>],
      inventory = [rice\<lparr>quantity := 7\<rparr>, beans\<lparr>quantity := 4\<rparr>],
      sales = [\<lparr>sale_id = 1, item_id = SqlInt 1, sale_quantity = 3, sale_price = 480,
                sale_date = ''2024-03-09 12:00:07''\<rparr>,
               \<lparr>sale_id = 2, item_id = SqlInt 2, sale_quantity = 1, sale_price = 300,
                sale_date = ''2024-03-09 12:00:07''\<rparr>],
      inventory_seq = 2, sales_seq = 2\<rparr>"
    by (simp add: record_sale_eq rice_def beans_def next_rowid_def strftime_noon)
  with assms(3) show ?thesis
    by (simp add: delete_item_def rice_def beans_def ledger_def)
qed

section \<open>Recording a sale\<close>

text \<open>
  C10: for an \<open>item_id\<close> that no inventory row has, \<open>record_sale\<close> signals no error: it
  inserts the sale row with the dangling \<open>item_id\<close> and leaves the inventory table as it
  was. (The listing, being an inner join, does not show the new row.) That is so for a
  Python integer that is the id of no row, with \<open>item_id\<close> that integer, and for every
  \<^verbatim>\<open>numpy.int64\<close>, with \<open>item_id\<close> its BLOB.
\<close>

theorem record_sale_orphan:
  assumes "bind_param a \<notin> set (map (\<lambda>r. SqlInt (inv_id r)) (inventory d))"
  shows "\<exists>d'. record_sale d now a q p = Inr ((), d') \<and>
           inventory d' = inventory d \<and> inventory_seq d' = inventory_seq d \<and>
           users d' = users d \<and>
           sales d' = sales d @
             [\<lparr>sale_id = next_rowid (sales_seq d) (map sale_id (sales d)),
               item_id = bind_param a,
               sale_quantity = q, sale_price = p, sale_date = strftime now\<rparr>] \<and>
           item_id (last (sales d')) \<notin> set (map (\<lambda>r. SqlInt (inv_id r)) (inventory d')) \<and>
           get_sales d' = get_sales d"
proof -
  let ?g = "\<lambda>x::'a inventory_row. if SqlInt (inv_id x) = bind_param a
      then x\<lparr>quantity := quantity x - q\<rparr> else x"
  let ?new = "\<lparr>sale_id = next_rowid (sales_seq d) (map sale_id (sales d)),
               item_id = bind_param a,
               sale_quantity = q, sale_price = p, sale_date = strftime now\<rparr>"
  let ?d' = "d\<lparr>inventory := map ?g (inventory d), sales := sales d @ [?new],
               sales_seq := next_rowid (sales_seq d) (map sale_id (sales d))\<rparr>"
  have 1: "record_sale d now a q p = Inr ((), ?d')" by (rule record_sale_eq)
  from assms have "\<forall>x \<in> set (inventory d). \<not> SqlInt (inv_id x) = bind_param a"
    by (rule no_row_matches)
  then have same: "map ?g (inventory d) = inventory d" by (rule upd_rows_absent)
  then have 2: "inventory ?d' = inventory d" by simp
  have 3: "inventory_seq ?d' = inventory_seq d" "users ?d' = users d"
    "sales ?d' = sales d @ [?new]" by simp_all
  from assms same
  have 4: "item_id (last (sales ?d')) \<notin> set (map (\<lambda>r. SqlInt (inv_id r)) (inventory ?d'))"
    by simp
  from assms have "sale_rows (inventory d) ?new = []" by (simp add: sale_rows_no_item)
  with same have 5: "get_sales ?d' = get_sales d" by (simp add: get_sales_sale_rows)
  from 1 2 3 4 5 show ?thesis by blast
qed

text \<open>A sale of item 99, which the shop does not have.\<close>

theorem record_sale_orphan_witness:
  "99 \<notin> set (map inv_id (inventory shop)) \<and>
   bind_param (PyInt 99) \<notin> set (map (\<lambda>r. SqlInt (inv_id r)) (inventory shop)) \<and>
   (\<exists>d'. record_sale shop noon (PyInt 99) 2 480 = Inr ((), d') \<and>
      inventory d' = inventory shop \<and>
      sales d' = [\<lparr>sale_id = 1, item_id = SqlInt 99, sale_quantity = 2, sale_price = 480,
                   sale_date = ''2024-03-09 12:00:07''\<rparr>] \<and>
      get_sales d' = [])"
proof -
  have h: "99 \<notin> set (map inv_id (inventory shop))"
    and h': "bind_param (PyInt 99) \<notin> set (map (\<lambda>r. SqlInt (inv_id r)) (inventory shop))"
    by (simp_all add: shop_def rice_def beans_def)
  have n: "next_rowid (sales_seq shop) (map sale_id (sales shop)) = 1"
    by (simp add: shop_def next_rowid_def)
  have e: "get_sales shop = []" and s: "sales shop = []"
    by (simp_all add: get_sales_def shop_def)
  have b: "bind_param (PyInt 99) = SqlInt 99" by simp
  from record_sale_orphan [OF h', of noon 2 480]
  obtain d' where 1: "record_sale shop noon (PyInt 99) 2 480 = Inr ((), d')"
    and 2: "inventory d' = inventory shop"
    and 3: "sales d' = sales shop @
             [\<lparr>sale_id = next_rowid (sales_seq shop) (map sale_id (sales shop)),
               item_id = bind_param (PyInt 99),
               sale_quantity = 2, sale_price = 480, sale_date = strftime noon\<rparr>]"
    and 4: "get_sales d' = get_sales shop"
    by blast
  from 3 have 5: "sales d' = [\<lparr>sale_id = 1, item_id = SqlInt 99, sale_quantity = 2,
                   sale_price = 480, sale_date = ''2024-03-09 12:00:07''\<rparr>]"
    by (simp only: n b strftime_noon) (simp only: s append_Nil)
  from 4 have 6: "get_sales d' = []" by (simp only: e)
  from h h' 1 2 5 6 show ?thesis by blast
qed

section \<open>Users\<close>

text \<open>
  C2: for a username already in the users table, \<open>create_user\<close> returns \<^verbatim>\<open>False\<close>, the
  outcome reserved for the conflict (not an exception, not the \<^verbatim>\<open>True\<close> of success),
  and the database is exactly as before; for a username not yet there it returns
  \<^verbatim>\<open>True\<close> and the table has the new row with the hashed password. \<^verbatim>\<open>False\<close> is
  returned for a conflict only.
\<close>

theorem create_user_conflict:
  "(u \<in> set (map username (users d)) \<longrightarrow> create_user H d u p = Inr (False, d)) \<and>
   (u \<notin> set (map username (users d)) \<longrightarrow>
      create_user H d u p =
        Inr (True, d\<lparr>users := users d @ [\<lparr>username = u, password = make_hashes H p\<rparr>]\<rparr>) \<and>
      sql_select_user (d\<lparr>users := users d @ [\<lparr>username = u, password = make_hashes H p\<rparr>]\<rparr>) u =
        Some \<lparr>username = u, password = make_hashes H p\<rparr>) \<and>
   ((\<exists>d'. create_user H d u p = Inr (False, d')) \<longleftrightarrow> u \<in> set (map username (users d)))"
proof (intro conjI impI)
  assume "u \<in> set (map username (users d))"
  then show "create_user H d u p = Inr (False, d)"
    by (simp add: create_user_def sql_insert_user_def)
next
  assume "u \<notin> set (map username (users d))"
  then show "create_user H d u p =
        Inr (True, d\<lparr>users := users d @ [\<lparr>username = u, password = make_hashes H p\<rparr>]\<rparr>)"
    by (simp add: create_user_def sql_insert_user_def)
next
  assume "u \<notin> set (map username (users d))"
  then have "find (\<lambda>r. username r = u) (users d) = None"
    by (auto simp: find_None_iff)
  then show "sql_select_user (d\<lparr>users := users d @ [\<lparr>username = u, password = make_hashes H p\<rparr>]\<rparr>) u =
        Some \<lparr>username = u, password = make_hashes H p\<rparr>"
    by (simp add: sql_select_user_def find_app)
next
  show "(\<exists>d'. create_user H d u p = Inr (False, d')) \<longleftrightarrow> u \<in> set (map username (users d))"
    by (simp add: create_user_def sql_insert_user_def)
qed

text \<open>Signing up as \<^verbatim>\<open>admin\<close> again, and as a new user.\<close>

theorem create_user_conflict_witness:
  "''admin'' \<in> set (map username (users shop)) \<and>
   create_user demo_digest shop ''admin'' ''letmein99'' = Inr (False, shop) \<and>
   ''bola'' \<notin> set (map username (users shop)) \<and>
   create_user demo_digest shop ''bola'' ''letmein99'' =
     Inr (True, shop\<lparr>users := users shop @ [\<lparr>username = ''bola'', password = ''99niemtel''\<rparr>]\<rparr>)"
  using create_user_conflict [of "''admin''" shop demo_digest "''letmein99''"]
    create_user_conflict [of "''bola''" shop demo_digest "''letmein99''"]
  by (simp add: shop_def make_hashes_def str_encode_def demo_digest_def)

text \<open>
  C3: for a username not yet registered, \<open>create_user u p\<close> succeeds and \<open>login_user u p\<close>
  on the resulting database returns \<^verbatim>\<open>True\<close>.
\<close>

theorem create_then_login:
  assumes "u \<notin> set (map username (users d))"
  shows "\<exists>d'. create_user H d u p = Inr (True, d') \<and> login_user H d' u p = PyBool True"
proof -
  let ?d' = "d\<lparr>users := users d @ [\<lparr>username = u, password = make_hashes H p\<rparr>]\<rparr>"
  from assms have c: "create_user H d u p = Inr (True, ?d')"
    by (simp add: create_user_def sql_insert_user_def)
  from assms have "find (\<lambda>r. username r = u) (users d) = None"
    by (auto simp: find_None_iff)
  then have "sql_select_user ?d' u = Some \<lparr>username = u, password = make_hashes H p\<rparr>"
    by (simp add: sql_select_user_def find_app)
  then have "login_user H ?d' u p = PyBool True"
    by (simp add: login_user_def check_hashes_def)
  with c show ?thesis by blast
qed

text \<open>A new user signs up and logs in.\<close>

theorem create_then_login_witness:
  "''bola'' \<notin> set (map username (users shop)) \<and>
   (\<exists>d'. create_user demo_digest shop ''bola'' ''letmein99'' = Inr (True, d') \<and>
      login_user demo_digest d' ''bola'' ''letmein99'' = PyBool True)"
  using create_then_login [of "''bola''" shop demo_digest "''letmein99''"]
  by (simp add: shop_def)

text \<open>
  C4, as the code has it: for a username with no stored row \<open>login_user\<close> returns
  \<^verbatim>\<open>None\<close> (falsy, but not the value \<^verbatim>\<open>False\<close>); for a stored row it returns the
  Boolean "the digest of the supplied password equals the stored digest", so it returns
  \<^verbatim>\<open>False\<close> for every password whose digest differs from the stored one.
\<close>

theorem login_user_rejects:
  "(u \<notin> set (map username (users d)) \<longrightarrow>
      login_user H d u p = PyNone \<and> \<not> truthy (login_user H d u p)) \<and>
   (distinct (map username (users d)) \<and> \<lparr>username = u, password = h\<rparr> \<in> set (users d) \<longrightarrow>
      login_user H d u p = PyBool (make_hashes H p = h) \<and>
      (make_hashes H p \<noteq> h \<longrightarrow> login_user H d u p = PyBool False))"
proof (intro conjI impI)
  assume "u \<notin> set (map username (users d))"
  then have n: "sql_select_user d u = None"
    by (auto simp: sql_select_user_def find_None_iff)
  then show "login_user H d u p = PyNone" by (simp add: login_user_def)
  from n show "\<not> truthy (login_user H d u p)" by (simp add: login_user_def)
next
  assume a: "distinct (map username (users d)) \<and> \<lparr>username = u, password = h\<rparr> \<in> set (users d)"
  then have "sql_select_user d u = Some \<lparr>username = u, password = h\<rparr>"
    using select_user_row [of "users d" "\<lparr>username = u, password = h\<rparr>"]
    by (simp add: sql_select_user_def)
  then show eq: "login_user H d u p = PyBool (make_hashes H p = h)"
    by (simp add: login_user_def check_hashes_def)
  assume "make_hashes H p \<noteq> h"
  with eq show "login_user H d u p = PyBool False" by simp
qed

text \<open>An unknown user, and \<^verbatim>\<open>admin\<close> with a wrong and with the right password.\<close>

theorem login_user_rejects_witness:
  "''nobody'' \<notin> set (map username (users shop)) \<and>
   login_user demo_digest shop ''nobody'' ''admin123'' = PyNone \<and>
   distinct (map username (users shop)) \<and>
   \<lparr>username = ''admin'', password = ''321nimda''\<rparr> \<in> set (users shop) \<and>
   make_hashes demo_digest ''admin124'' \<noteq> ''321nimda'' \<and>
   login_user demo_digest shop ''admin'' ''admin124'' = PyBool False \<and>
   login_user demo_digest shop ''admin'' ''admin123'' = PyBool True"
  using login_user_rejects [of "''nobody''" shop demo_digest "''admin123''" "''321nimda''"]
    login_user_rejects [of "''admin''" shop demo_digest "''admin124''" "''321nimda''"]
    login_user_rejects [of "''admin''" shop demo_digest "''admin123''" "''321nimda''"]
  by (simp add: shop_def make_hashes_def str_encode_def demo_digest_def)

text \<open>
  C4 as the specification words it asks for \<^verbatim>\<open>False\<close> when the user has no stored
  row; the result there is \<^verbatim>\<open>None\<close>.
\<close>

theorem login_user_false_counterexample:
  "''nobody'' \<notin> set (map username (users shop)) \<and>
   login_user demo_digest shop ''nobody'' ''admin123'' \<noteq> PyBool False"
  by (simp add: login_user_def sql_select_user_def shop_def)

section \<open>Inventory\<close>

lemma low_stock_alert_shown:
  "low_stock_alert items = Some rows \<longleftrightarrow>
     low_stock items \<noteq> [] \<and> rows = map (\<lambda>r. (item r, quantity r, min_stock r)) (low_stock items)"
  by (auto simp: low_stock_alert_def low_stock_def)

text \<open>
  C5: the low-stock view of an already fetched list contains an item if and only if the
  item is in the list and its quantity is strictly below its \<open>min_stock\<close>; an item with
  \<open>quantity = min_stock\<close> is left out. The view is a function of the list alone.
\<close>

theorem low_stock_iff:
  "(r \<in> set (low_stock items) \<longleftrightarrow> r \<in> set items \<and> quantity r < min_stock r) \<and>
   (quantity r = min_stock r \<longrightarrow> r \<notin> set (low_stock items)) \<and>
   low_stock (low_stock items) = low_stock items"
  by (auto simp: low_stock_def)

text \<open>Three rows: below the minimum, at the minimum, above it.\<close>

theorem low_stock_iff_witness:
  "quantity beans = min_stock beans \<and> beans \<notin> set (low_stock [rice\<lparr>quantity := 4\<rparr>, beans, rice]) \<and>
   quantity (rice\<lparr>quantity := 4\<rparr>) < min_stock (rice\<lparr>quantity := 4\<rparr>) \<and>
   rice\<lparr>quantity := 4\<rparr> \<in> set (low_stock [rice\<lparr>quantity := 4\<rparr>, beans, rice]) \<and>
   rice \<notin> set (low_stock [rice\<lparr>quantity := 4\<rparr>, beans, rice])"
  using low_stock_iff [of beans "[rice\<lparr>quantity := 4\<rparr>, beans, rice]"]
    low_stock_iff [of "rice\<lparr>quantity := 4\<rparr>" "[rice\<lparr>quantity := 4\<rparr>, beans, rice]"]
    low_stock_iff [of rice "[rice\<lparr>quantity := 4\<rparr>, beans, rice]"]
  by (simp add: rice_def beans_def)

text \<open>
  C6, as the code has it: for an id that no inventory row has, \<open>delete_item\<close> returns
  normally, with the same \<^verbatim>\<open>None\<close> it returns for an id that exists, and the database
  (so also the length of the listing) is as before. The id may be given as a Python
  integer that is the id of no row, or as a \<^verbatim>\<open>numpy.int64\<close>, which matches no row.
\<close>

theorem delete_item_missing:
  "bind_param a \<notin> set (map (\<lambda>r. SqlInt (inv_id r)) (inventory d)) \<Longrightarrow>
   delete_item d a = Inr ((), d) \<and>
   (\<forall>d'. delete_item d a = Inr ((), d') \<longrightarrow>
      get_inventory d' = get_inventory d \<and>
      length (get_inventory d') = length (get_inventory d))"
proof -
  assume "bind_param a \<notin> set (map (\<lambda>r. SqlInt (inv_id r)) (inventory d))"
  then have "\<forall>x \<in> set (inventory d). SqlInt (inv_id x) \<noteq> bind_param a"
    by (rule no_row_matches)
  then have "filter (\<lambda>r. SqlInt (inv_id r) \<noteq> bind_param a) (inventory d) = inventory d"
    by (simp add: filter_id_conv)
  then have "delete_item d a = Inr ((), d)" by (simp add: delete_item_def)
  then show ?thesis by simp
qed

text \<open>Deleting item 99, which the shop does not have.\<close>

theorem delete_item_missing_witness:
  "99 \<notin> set (map inv_id (inventory shop)) \<and>
   bind_param (PyInt 99) \<notin> set (map (\<lambda>r. SqlInt (inv_id r)) (inventory shop)) \<and>
   delete_item shop (PyInt 99) = Inr ((), shop) \<and>
   length (get_inventory shop) = 2"
proof -
  have h: "99 \<notin> set (map inv_id (inventory shop))"
    and h': "bind_param (PyInt 99) \<notin> set (map (\<lambda>r. SqlInt (inv_id r)) (inventory shop))"
    by (simp_all add: shop_def rice_def beans_def)
  have l: "length (get_inventory shop) = 2"
    by (simp add: get_inventory_def shop_def)
  from delete_item_missing [OF h'] have "delete_item shop (PyInt 99) = Inr ((), shop)"
    by (rule conjunct1)
  with h h' l show ?thesis by blast
qed

text \<open>
  C6 as the specification words it asks for a NotFound outcome; the call neither raises
  nor returns anything other than what deleting an existing item returns.
\<close>

theorem delete_item_notfound_counterexample:
  "99 \<notin> set (map inv_id (inventory shop)) \<and> 1 \<in> set (map inv_id (inventory shop)) \<and>
   \<not> isl (delete_item shop (PyInt 99)) \<and>
   map_sum id fst (delete_item shop (PyInt 99)) = map_sum id fst (delete_item shop (PyInt 1))"
  by (simp add: delete_item_def shop_def rice_def beans_def)

section \<open>The sales listing\<close>

text \<open>
  C8: on a database whose primary keys hold, the sales listing is the specification's
  listing: one row (sale id, item name, quantity, price, date) for each sale whose
  \<open>item_id\<close> is the id of an inventory row, in the order of the sales, with that item's
  name; a sale whose item is no longer there has no row in the listing.
\<close>

theorem get_sales_inner_join:
  assumes "primary_keys d"
  shows "get_sales d = list_sales_spec d \<and>
         map fst (get_sales d) =
           map sale_id (filter (\<lambda>s. item_id s \<in> set (map (\<lambda>r. SqlInt (inv_id r)) (inventory d))) (sales d)) \<and>
         (\<forall>s \<in> set (sales d). item_id s \<notin> set (map (\<lambda>r. SqlInt (inv_id r)) (inventory d)) \<longrightarrow>
            sale_id s \<notin> set (map fst (get_sales d)))"
proof (intro conjI ballI impI)
  from assms have inv: "distinct (map inv_id (inventory d))"
    and sal: "distinct (map sale_id (sales d))"
    by (simp_all add: primary_keys_def)
  show "get_sales d = list_sales_spec d"
    using inv by (simp add: get_sales_sale_rows list_sales_spec_def join_map_filter)
  show ids: "map fst (get_sales d) =
      map sale_id (filter (\<lambda>s. item_id s \<in> set (map (\<lambda>r. SqlInt (inv_id r)) (inventory d))) (sales d))"
    using inv by (simp add: get_sales_sale_rows join_sale_ids)
  fix s
  assume s: "s \<in> set (sales d)" and gone: "item_id s \<notin> set (map (\<lambda>r. SqlInt (inv_id r)) (inventory d))"
  show "sale_id s \<notin> set (map fst (get_sales d))"
  proof
    assume "sale_id s \<in> set (map fst (get_sales d))"
    then obtain s' where s': "s' \<in> set (sales d)"
      "item_id s' \<in> set (map (\<lambda>r. SqlInt (inv_id r)) (inventory d))" "sale_id s' = sale_id s"
      unfolding ids by auto
    from sal have "inj_on sale_id (set (sales d))" by (simp add: distinct_map)
    with s s' have "s' = s" by (auto dest: inj_onD)
    with s' gone show False by simp
  qed
qed

text \<open>Two sales, the item of the second deleted: the listing has the first only.\<close>

theorem get_sales_inner_join_witness:
  "primary_keys ledger \<and> get_sales ledger = list_sales_spec ledger \<and>
   get_sales ledger = [(1, ''Rice'', 3, 480, ''2024-03-09 12:00:07'')] \<and>
   length (sales ledger) = 2"
proof -
  have pk: "primary_keys ledger" by (simp add: primary_keys_def ledger_def rice_def)
  have g: "get_sales ledger = [(1, ''Rice'', 3, 480, ''2024-03-09 12:00:07'')]"
    by (simp add: get_sales_def ledger_def rice_def)
  have l: "length (sales ledger) = 2" by (simp add: ledger_def)
  from get_sales_inner_join [OF pk] have "get_sales ledger = list_sales_spec ledger"
    by (rule conjunct1)
  with pk g l show ?thesis by blast
qed

end
